theory Spec2Isabelle
  imports Main
begin

section \<open>Logging configuration (config/logging.config.ts)\<close>

text \<open>
  \<^verbatim>\<open>type LogLevel = 'debug' | 'info' | 'warn' | 'error' | 'none'\<close>
\<close>

datatype LogLevel = L_debug | L_info | L_warn | L_error | L_none

text \<open>
  The interface \<^verbatim>\<open>LoggingConfig\<close>. \<^verbatim>\<open>maxStoredLogs\<close> is a JavaScript number;
  the model covers its integer values, negative ones included. The optional
  \<^verbatim>\<open>remoteEndpoint\<close> is \<open>None\<close> when the property is absent.
\<close>

record LoggingConfig =
  minLevel :: LogLevel
  enableConsole :: bool
  enableLocalStorage :: bool
  maxStoredLogs :: int
  enableRemoteLogging :: bool
  remoteEndpoint :: "string option"
  remoteMinLevel :: LogLevel
  includeDeviceInfo :: bool
  includeTimestamp :: bool
  appName :: string

definition developmentConfig :: LoggingConfig where
  "developmentConfig =
     \<lparr>minLevel = L_debug, enableConsole = True, enableLocalStorage = True,
      maxStoredLogs = 500, enableRemoteLogging = False, remoteEndpoint = None,
      remoteMinLevel = L_error, includeDeviceInfo = True, includeTimestamp = True,
      appName = ''FrugalBitesVendor''\<rparr>"

definition productionConfig :: LoggingConfig where
  "productionConfig =
     \<lparr>minLevel = L_info, enableConsole = False, enableLocalStorage = True,
      maxStoredLogs = 200, enableRemoteLogging = True,
      remoteEndpoint = Some ''https://your-logging-server.com/api/logs'',
      remoteMinLevel = L_warn, includeDeviceInfo = True, includeTimestamp = True,
      appName = ''FrugalBitesVendor''\<rparr>"

text \<open>
  \<^verbatim>\<open>Partial<LoggingConfig>\<close>: every property may be absent (\<open>None\<close>). A present
  \<^verbatim>\<open>remoteEndpoint\<close> may itself carry \<^verbatim>\<open>undefined\<close>.
\<close>

record ConfigUpdates =
  u_minLevel :: "LogLevel option"
  u_enableConsole :: "bool option"
  u_enableLocalStorage :: "bool option"
  u_maxStoredLogs :: "int option"
  u_enableRemoteLogging :: "bool option"
  u_remoteEndpoint :: "string option option"
  u_remoteMinLevel :: "LogLevel option"
  u_includeDeviceInfo :: "bool option"
  u_includeTimestamp :: "bool option"
  u_appName :: "string option"

definition no_updates :: ConfigUpdates where
  "no_updates =
     \<lparr>u_minLevel = None, u_enableConsole = None, u_enableLocalStorage = None,
      u_maxStoredLogs = None, u_enableRemoteLogging = None, u_remoteEndpoint = None,
      u_remoteMinLevel = None, u_includeDeviceInfo = None, u_includeTimestamp = None,
      u_appName = None\<rparr>"

definition pick :: "'a \<Rightarrow> 'a option \<Rightarrow> 'a" where
  "pick old upd = (case upd of None \<Rightarrow> old | Some v \<Rightarrow> v)"

text \<open>The object spread \<^verbatim>\<open>{ ...c, ...u }\<close>: a property of \<open>u\<close> wins where present.\<close>

definition spread :: "LoggingConfig \<Rightarrow> ConfigUpdates \<Rightarrow> LoggingConfig" where
  "spread c u =
     \<lparr>minLevel = pick (minLevel c) (u_minLevel u),
      enableConsole = pick (enableConsole c) (u_enableConsole u),
      enableLocalStorage = pick (enableLocalStorage c) (u_enableLocalStorage u),
      maxStoredLogs = pick (maxStoredLogs c) (u_maxStoredLogs u),
      enableRemoteLogging = pick (enableRemoteLogging c) (u_enableRemoteLogging u),
      remoteEndpoint = pick (remoteEndpoint c) (u_remoteEndpoint u),
      remoteMinLevel = pick (remoteMinLevel c) (u_remoteMinLevel u),
      includeDeviceInfo = pick (includeDeviceInfo c) (u_includeDeviceInfo u),
      includeTimestamp = pick (includeTimestamp c) (u_includeTimestamp u),
      appName = pick (appName c) (u_appName u)\<rparr>"

section \<open>Values, entries and the host\<close>

text \<open>
  From here on the model follows the logger service that services/api.ts imports as
  \<^verbatim>\<open>./logger\<close>; its source is the second part of src/FrugalBitesVendor/src/App.tsx,
  from line 150 on.
\<close>

text \<open>
  The \<^verbatim>\<open>any\<close> payload of an entry: a JavaScript value as JSON carries it, and
  \<^verbatim>\<open>undefined\<close>. Numbers are modelled by their integer values.
\<close>

datatype jsval =
    JUndefined
  | JNull
  | JBool bool
  | JNum int
  | JStr string
  | JArr "jsval list"
  | JObj "(string \<times> jsval) list"

text \<open>JavaScript truthiness, as the conditional \<^verbatim>\<open>v ? a : b\<close> tests it.\<close>

fun truthy :: "jsval \<Rightarrow> bool" where
  "truthy JUndefined = False"
| "truthy JNull = False"
| "truthy (JBool b) = b"
| "truthy (JNum n) = (n \<noteq> 0)"
| "truthy (JStr s) = (s \<noteq> [])"
| "truthy (JArr xs) = True"
| "truthy (JObj kvs) = True"

text \<open>
  \<^verbatim>\<open>interface LogEntry\<close>. The optional properties are \<open>None\<close> when absent;
  \<^verbatim>\<open>deviceInfo\<close> is the pair (platform, version).
\<close>

record LogEntry =
  timestamp :: string
  level :: LogLevel
  message :: string
  entry_context :: "string option"
  data :: "jsval option"
  deviceInfo :: "(string \<times> string) option"

text \<open>
  What \<^verbatim>\<open>JSON.parse(JSON.stringify(v))\<close> makes of a value: a property whose value is
  \<^verbatim>\<open>undefined\<close> is left out of an object, and \<^verbatim>\<open>undefined\<close> in an array becomes
  \<^verbatim>\<open>null\<close>. On an entry, a \<^verbatim>\<open>data\<close> that is \<^verbatim>\<open>undefined\<close> is left out.
\<close>

fun json_value :: "jsval \<Rightarrow> jsval" where
  "json_value (JArr xs) =
     JArr (map (\<lambda>v. if v = JUndefined then JNull else json_value v) xs)"
| "json_value (JObj kvs) =
     JObj (map (\<lambda>(k, v). (k, json_value v)) (filter (\<lambda>(k, v). v \<noteq> JUndefined) kvs))"
| "json_value v = v"

definition json_entry :: "LogEntry \<Rightarrow> LogEntry" where
  "json_entry e =
     e\<lparr>data := (case data e of
                   None \<Rightarrow> None
                 | Some d \<Rightarrow> if d = JUndefined then None else Some (json_value d))\<rparr>"

text \<open>\<^verbatim>\<open>LOG_LEVELS\<close>, the rank of a level.\<close>

fun LOG_LEVELS :: "LogLevel \<Rightarrow> nat" where
  "LOG_LEVELS L_debug = 0"
| "LOG_LEVELS L_info = 1"
| "LOG_LEVELS L_warn = 2"
| "LOG_LEVELS L_error = 3"
| "LOG_LEVELS L_none = 4"

text \<open>\<^verbatim>\<open>level.toUpperCase()\<close> on the five level names.\<close>

fun level_toUpperCase :: "LogLevel \<Rightarrow> string" where
  "level_toUpperCase L_debug = ''DEBUG''"
| "level_toUpperCase L_info = ''INFO''"
| "level_toUpperCase L_warn = ''WARN''"
| "level_toUpperCase L_error = ''ERROR''"
| "level_toUpperCase L_none = ''NONE''"

text \<open>
  What the logger takes from its platform: \<^verbatim>\<open>Platform.OS\<close>,
  \<^verbatim>\<open>Platform.Version.toString()\<close>, \<^verbatim>\<open>new Date(t).toLocaleTimeString()\<close> and
  \<^verbatim>\<open>JSON.stringify\<close> on a payload. None of them is code of the repository, so they
  are parameters of the model.
\<close>

record host =
  Platform_OS :: string
  Platform_Version :: string
  toLocaleTimeString :: "string \<Rightarrow> string"
  JSON_stringify :: "jsval \<Rightarrow> string"

text \<open>\<^verbatim>\<open>Array.prototype.join\<close> on strings.\<close>

fun join :: "string \<Rightarrow> string list \<Rightarrow> string" where
  "join sep [] = []"
| "join sep [x] = x"
| "join sep (x # y # ys) = x @ sep @ join sep (y # ys)"

text \<open>An optional string inside a template literal: \<^verbatim>\<open>undefined\<close> prints its name.\<close>

definition template_opt :: "string option \<Rightarrow> string" where
  "template_opt s = (case s of None \<Rightarrow> ''undefined'' | Some t \<Rightarrow> t)"

text \<open>
  \<^verbatim>\<open>arr.slice(start)\<close> for an integer \<open>start\<close>: a negative start counts from the end
  and is clamped at the front, a start past the end gives the empty array.
\<close>

definition slice_from :: "int \<Rightarrow> 'a list \<Rightarrow> 'a list" where
  "slice_from start xs =
     (let n = int (length xs);
          k = (if start < 0 then max (n + start) 0 else min start n)
      in drop (nat k) xs)"

section \<open>The store of objects, and the world a logger acts on\<close>

text \<open>
  \<^verbatim>\<open>class Logger\<close>: \<open>config\<close> is a reference to a configuration object (its address
  in the store below), since several loggers may hold the same object.
  \<open>flushTimer\<close> is the handle \<^verbatim>\<open>setTimeout\<close> returned, or \<open>None\<close> for \<^verbatim>\<open>null\<close>; a
  handle is an object (\<^verbatim>\<open>NodeJS.Timeout\<close>), hence truthy.
\<close>

record Logger =
  config :: nat
  logger_context :: string
  pendingLogs :: "LogEntry list"
  flushTimer :: "nat option"

text \<open>
  The text under \<^verbatim>\<open>LOG_STORAGE_KEY\<close>: \<open>Serialized xs\<close> is the JSON text that
  \<^verbatim>\<open>JSON.parse\<close> reads as the array \<open>xs\<close> of entries; \<open>Unparsable s\<close> is a text \<open>s\<close> on
  which \<^verbatim>\<open>JSON.parse\<close> throws a SyntaxError (the empty text is one of them).
  \<^verbatim>\<open>JSON.stringify(logs)\<close> is \<open>Serialized (map json_entry logs)\<close>. A text that parses
  to something else than an array of entries is left out: the logger is the only
  writer under its key.
\<close>

datatype stored_text = Serialized "LogEntry list" | Unparsable string

datatype js_error = SyntaxError

text \<open>
  A call on the console: \<^verbatim>\<open>console.debug|info|warn|error(message[, data])\<close> made by
  \<^verbatim>\<open>logToConsole\<close>, or \<^verbatim>\<open>console.error(text, error)\<close> made by a catch block.
\<close>

datatype console_call =
    ConsoleLine LogLevel string "jsval option"
  | ConsoleFailure string js_error

text \<open>
  One \<^verbatim>\<open>fetch\<close> whose promise is pending: the logger that awaits it, the address,
  and the \<^verbatim>\<open>appName\<close> and the \<^verbatim>\<open>logs\<close> of the object handed to \<^verbatim>\<open>JSON.stringify\<close> for
  the body. It settles with a response (of some status) or with a network error.
\<close>

record fetch_call =
  fc_logger :: nat
  fc_url :: string
  fc_appName :: string
  fc_logs :: "LogEntry list"

datatype fetch_outcome = Responded nat | NetworkError

text \<open>
  The state the logger's methods read and write: the configuration objects and the
  logger objects by address (with the next free address of each), the console, the
  value under the storage key (\<open>None\<close> when the key is not set), the armed timeouts
  (handle to delay and the logger whose flush the callback runs) and the pending
  fetches. \<^verbatim>\<open>AsyncStorage.getItem\<close> and \<^verbatim>\<open>setItem\<close> are taken to resolve.
\<close>

record world =
  configs :: "nat \<Rightarrow> LoggingConfig"
  next_config :: nat
  loggers :: "nat \<Rightarrow> Logger"
  next_logger :: nat
  console :: "console_call list"
  storage :: "stored_text option"
  timers :: "nat \<Rightarrow> (nat \<times> nat) option"
  next_timer :: nat
  inflight :: "fetch_call list"

text \<open>The module-level object \<^verbatim>\<open>loggingConfig\<close> lives at address 0.\<close>

definition loggingConfig :: nat where
  "loggingConfig = 0"

text \<open>\<^verbatim>\<open>this.config\<close>, dereferenced.\<close>

definition this_config :: "world \<Rightarrow> nat \<Rightarrow> LoggingConfig" where
  "this_config w r = configs w (config (loggers w r))"

text \<open>
  \<^verbatim>\<open>new Logger()\<close>: the field initialisers and the constructor. The result is the
  address of the new object and the world that holds it.
\<close>

definition new_Logger :: "world \<Rightarrow> nat \<times> world" where
  "new_Logger w =
     (let a = next_logger w
      in (a, w\<lparr>loggers := (loggers w)
                  (a := \<lparr>config = loggingConfig, logger_context = ''App'',
                         pendingLogs = [], flushTimer = None\<rparr>),
                next_logger := Suc a\<rparr>))"

definition withContext :: "nat \<Rightarrow> string \<Rightarrow> world \<Rightarrow> nat \<times> world" where
  "withContext r ctx w =
     (let (a, w1) = new_Logger w;
          w2 = w1\<lparr>loggers := (loggers w1)
                  (a := (loggers w1 a)\<lparr>logger_context := ctx\<rparr>)\<rparr>;
          w3 = w2\<lparr>loggers := (loggers w2)
                  (a := (loggers w2 a)\<lparr>config := config (loggers w2 r)\<rparr>)\<rparr>
      in (a, w3))"

text \<open>
  \<^verbatim>\<open>this.config = { ...this.config, ...updates }\<close>: the spread builds a new object,
  and only this logger's field is set to it.
\<close>

definition configure :: "nat \<Rightarrow> ConfigUpdates \<Rightarrow> world \<Rightarrow> world" where
  "configure r updates w =
     (let a = next_config w
      in w\<lparr>configs := (configs w)(a := spread (this_config w r) updates),
           next_config := Suc a,
           loggers := (loggers w)(r := (loggers w r)\<lparr>config := a\<rparr>)\<rparr>)"

text \<open>
  \<^verbatim>\<open>updateLoggingConfig\<close> of logging.config.ts: \<^verbatim>\<open>Object.assign\<close> writes into the
  module-level object itself.
\<close>

definition updateLoggingConfig :: "ConfigUpdates \<Rightarrow> world \<Rightarrow> world" where
  "updateLoggingConfig updates w =
     w\<lparr>configs := (configs w)
          (loggingConfig := spread (configs w loggingConfig) updates)\<rparr>"

definition shouldLog :: "world \<Rightarrow> nat \<Rightarrow> LogLevel \<Rightarrow> bool" where
  "shouldLog w r l = (LOG_LEVELS l \<ge> LOG_LEVELS (minLevel (this_config w r)))"

definition shouldLogRemote :: "world \<Rightarrow> nat \<Rightarrow> LogLevel \<Rightarrow> bool" where
  "shouldLogRemote w r l =
     (enableRemoteLogging (this_config w r) \<and>
      LOG_LEVELS l \<ge> LOG_LEVELS (remoteMinLevel (this_config w r)))"

text \<open>
  \<^verbatim>\<open>formatEntry\<close>; \<open>now\<close> is \<^verbatim>\<open>new Date().toISOString()\<close> at the call. A \<open>data\<close>
  argument that was not given is \<^verbatim>\<open>undefined\<close>.
\<close>

definition formatEntry ::
  "host \<Rightarrow> world \<Rightarrow> nat \<Rightarrow> string \<Rightarrow> LogLevel \<Rightarrow> string \<Rightarrow> jsval \<Rightarrow> LogEntry" where
  "formatEntry h w r now l msg d =
     \<lparr>timestamp = now, level = l, message = msg,
      entry_context = Some (logger_context (loggers w r)),
      data = (if d \<noteq> JUndefined then Some d else None),
      deviceInfo = (if includeDeviceInfo (this_config w r)
                    then Some (Platform_OS h, Platform_Version h) else None)\<rparr>"

definition formatConsoleMessage :: "host \<Rightarrow> world \<Rightarrow> nat \<Rightarrow> LogEntry \<Rightarrow> string" where
  "formatConsoleMessage h w r entry =
     (let parts0 = [];
          parts1 = (if includeTimestamp (this_config w r)
                    then parts0 @ [''['' @ toLocaleTimeString h (timestamp entry) @ '']'']
                    else parts0);
          parts2 = parts1 @ [''['' @ level_toUpperCase (level entry) @ '']''];
          parts3 = parts2 @ [''['' @ template_opt (entry_context entry) @ '']''];
          parts4 = parts3 @ [message entry]
      in join '' '' parts4)"

text \<open>\<^verbatim>\<open>logToConsole\<close>: the switch has no case for \<^verbatim>\<open>'none'\<close>.\<close>

definition logToConsole :: "host \<Rightarrow> nat \<Rightarrow> LogEntry \<Rightarrow> world \<Rightarrow> world" where
  "logToConsole h r entry w =
     (if \<not> enableConsole (this_config w r) then w
      else (case level entry of
              L_none \<Rightarrow> w
            | l \<Rightarrow> w\<lparr>console := console w @
                       [ConsoleLine l (formatConsoleMessage h w r entry) (data entry)]\<rparr>))"

text \<open>
  \<^verbatim>\<open>stored ? JSON.parse(stored) : []\<close>: \<^verbatim>\<open>null\<close> and the empty text are falsy; any
  other text is parsed, and the parse may throw.
\<close>

definition read_stored :: "stored_text option \<Rightarrow> js_error + LogEntry list" where
  "read_stored stored =
     (case stored of
        None \<Rightarrow> Inr []
      | Some (Serialized xs) \<Rightarrow> Inr xs
      | Some (Unparsable s) \<Rightarrow> (if s = [] then Inr [] else Inl SyntaxError))"

text \<open>
  \<^verbatim>\<open>storeLocally\<close>, run from its call to its end (no other append in between). An
  exception in the \<^verbatim>\<open>try\<close> block ends in the \<^verbatim>\<open>catch\<close>, which writes to the console
  and nothing else.
\<close>

definition storeLocally :: "nat \<Rightarrow> LogEntry \<Rightarrow> world \<Rightarrow> world" where
  "storeLocally r entry w =
     (if \<not> enableLocalStorage (this_config w r) then w
      else (case read_stored (storage w) of
              Inl e \<Rightarrow> w\<lparr>console := console w @ [ConsoleFailure ''Failed to store log:'' e]\<rparr>
            | Inr logs0 \<Rightarrow>
                (let logs1 = logs0 @ [entry];
                     logs2 = (if int (length logs1) > maxStoredLogs (this_config w r)
                              then slice_from (- maxStoredLogs (this_config w r)) logs1
                              else logs1)
                 in w\<lparr>storage := Some (Serialized (map json_entry logs2))\<rparr>)))"

text \<open>
  \<^verbatim>\<open>flushRemoteLogs\<close> up to its \<^verbatim>\<open>await fetch(...)\<close>: the timer is cleared, and unless
  the queue is empty or the endpoint falsy, the queue is copied, emptied, and posted.
\<close>

definition flushRemoteLogs :: "nat \<Rightarrow> world \<Rightarrow> world" where
  "flushRemoteLogs r w =
     (let w1 = (case flushTimer (loggers w r) of
                  None \<Rightarrow> w
                | Some t \<Rightarrow> w\<lparr>timers := (timers w)(t := None),
                               loggers := (loggers w)
                                 (r := (loggers w r)\<lparr>flushTimer := None\<rparr>)\<rparr>);
          pending = pendingLogs (loggers w1 r)
      in (case remoteEndpoint (this_config w1 r) of
            None \<Rightarrow> w1
          | Some url \<Rightarrow>
              if pending = [] \<or> url = [] then w1
              else w1\<lparr>loggers := (loggers w1)
                         (r := (loggers w1 r)\<lparr>pendingLogs := []\<rparr>),
                       inflight := inflight w1 @
                         [\<lparr>fc_logger = r, fc_url = url,
                           fc_appName = appName (this_config w1 r),
                           fc_logs = pending\<rparr>]\<rparr>))"

text \<open>
  The rest of \<^verbatim>\<open>flushRemoteLogs\<close>, when the \<open>k\<close>-th pending fetch settles. The promise
  of \<^verbatim>\<open>fetch\<close> rejects on a network error only; a response of any status resolves it,
  and the code does not look at the response.
\<close>

definition fetch_settled :: "nat \<Rightarrow> fetch_outcome \<Rightarrow> world \<Rightarrow> world" where
  "fetch_settled k outcome w =
     (if k < length (inflight w) then
        (let c = inflight w ! k;
             w1 = w\<lparr>inflight := take k (inflight w) @ drop (Suc k) (inflight w)\<rparr>
         in (case outcome of
               Responded status \<Rightarrow> w1
             | NetworkError \<Rightarrow>
                 w1\<lparr>loggers := (loggers w1)
                      (fc_logger c := (loggers w1 (fc_logger c))
                         \<lparr>pendingLogs := fc_logs c @ pendingLogs (loggers w1 (fc_logger c))\<rparr>)\<rparr>))
      else w)"

definition queueForRemote :: "nat \<Rightarrow> LogEntry \<Rightarrow> world \<Rightarrow> world" where
  "queueForRemote r entry w =
     (if \<not> shouldLogRemote w r (level entry) then w
      else (let w1 = w\<lparr>loggers := (loggers w)
                         (r := (loggers w r)
                            \<lparr>pendingLogs := pendingLogs (loggers w r) @ [entry]\<rparr>)\<rparr>
            in if length (pendingLogs (loggers w1 r)) \<ge> 10 then flushRemoteLogs r w1
               else (case flushTimer (loggers w1 r) of
                       None \<Rightarrow>
                         (let t = next_timer w1
                          in w1\<lparr>timers := (timers w1)(t \<mapsto> (5000, r)),
                                next_timer := Suc t,
                                loggers := (loggers w1)
                                  (r := (loggers w1 r)\<lparr>flushTimer := Some t\<rparr>)\<rparr>)
                     | Some t \<Rightarrow> w1)))"

text \<open>
  The host fires the timeout \<open>t\<close>: it is no longer armed, and its callback
  \<^verbatim>\<open>() => this.flushRemoteLogs()\<close> runs for the logger that armed it.
\<close>

definition timer_fired :: "nat \<Rightarrow> world \<Rightarrow> world" where
  "timer_fired t w =
     (case timers w t of
        None \<Rightarrow> w
      | Some (delay, r) \<Rightarrow> flushRemoteLogs r (w\<lparr>timers := (timers w)(t := None)\<rparr>))"

text \<open>
  \<^verbatim>\<open>log\<close>, the core method. \<^verbatim>\<open>storeLocally\<close> is started without being awaited; it
  touches the storage and the console only, \<^verbatim>\<open>queueForRemote\<close> neither, so the order
  in which the two finish does not show in the world.
\<close>

definition log :: "host \<Rightarrow> nat \<Rightarrow> string \<Rightarrow> LogLevel \<Rightarrow> string \<Rightarrow> jsval \<Rightarrow> world \<Rightarrow> world" where
  "log h r now l msg d w =
     (if \<not> shouldLog w r l then w
      else (let entry = formatEntry h w r now l msg d
            in queueForRemote r entry (storeLocally r entry (logToConsole h r entry w))))"

definition debug :: "host \<Rightarrow> nat \<Rightarrow> string \<Rightarrow> string \<Rightarrow> jsval \<Rightarrow> world \<Rightarrow> world" where
  "debug h r now msg d w = log h r now L_debug msg d w"

definition info :: "host \<Rightarrow> nat \<Rightarrow> string \<Rightarrow> string \<Rightarrow> jsval \<Rightarrow> world \<Rightarrow> world" where
  "info h r now msg d w = log h r now L_info msg d w"

definition warn :: "host \<Rightarrow> nat \<Rightarrow> string \<Rightarrow> string \<Rightarrow> jsval \<Rightarrow> world \<Rightarrow> world" where
  "warn h r now msg d w = log h r now L_warn msg d w"

definition error :: "host \<Rightarrow> nat \<Rightarrow> string \<Rightarrow> string \<Rightarrow> jsval \<Rightarrow> world \<Rightarrow> world" where
  "error h r now msg d w = log h r now L_error msg d w"

text \<open>An \<^verbatim>\<open>Error\<close> object; \<^verbatim>\<open>stack\<close> is optional.\<close>

record js_Error =
  err_name :: string
  err_message :: string
  err_stack :: "string option"

text \<open>
  \<^verbatim>\<open>logError(error, context?)\<close>: \<^verbatim>\<open>context || error.message\<close> takes the message of
  the error when the argument is absent or the empty string.
\<close>

definition logError ::
  "host \<Rightarrow> nat \<Rightarrow> string \<Rightarrow> js_Error \<Rightarrow> string option \<Rightarrow> world \<Rightarrow> world" where
  "logError h r now err ctx w =
     log h r now L_error
       (case ctx of
          None \<Rightarrow> err_message err
        | Some c \<Rightarrow> if c = [] then err_message err else c)
       (JObj [(''name'', JStr (err_name err)),
              (''message'', JStr (err_message err)),
              (''stack'', (case err_stack err of None \<Rightarrow> JUndefined | Some s \<Rightarrow> JStr s))])
       w"

definition getStoredLogs :: "world \<Rightarrow> LogEntry list" where
  "getStoredLogs w = (case read_stored (storage w) of Inl e \<Rightarrow> [] | Inr logs \<Rightarrow> logs)"

definition clearStoredLogs :: "world \<Rightarrow> world" where
  "clearStoredLogs w = w\<lparr>storage := None\<rparr>"

text \<open>The template literal of \<^verbatim>\<open>exportLogs\<close>, one stored entry to one line.\<close>

definition export_line :: "host \<Rightarrow> LogEntry \<Rightarrow> string" where
  "export_line h l =
     timestamp l @ '' ['' @ level_toUpperCase (level l) @ ''] ['' @
     template_opt (entry_context l) @ ''] '' @ message l @
     (case data l of
        None \<Rightarrow> []
      | Some d \<Rightarrow> if truthy d then '' '' @ JSON_stringify h d else [])"

definition exportLogs :: "host \<Rightarrow> world \<Rightarrow> string" where
  "exportLogs h w = join [CHR 0x0A] (map (export_line h) (getStoredLogs w))"

section \<open>Observations on the world\<close>

text \<open>The calls \<^verbatim>\<open>logToConsole\<close> made on the console, oldest first.\<close>

fun is_line :: "console_call \<Rightarrow> bool" where
  "is_line (ConsoleLine l m d) = True"
| "is_line (ConsoleFailure m e) = False"

definition console_lines :: "world \<Rightarrow> console_call list" where
  "console_lines w = filter is_line (console w)"

text \<open>
  What the remote uploader of logger \<open>r\<close> holds: the batches of its pending fetches,
  then its queue.
\<close>

definition remote_backlog :: "nat \<Rightarrow> world \<Rightarrow> LogEntry list" where
  "remote_backlog r w =
     concat (map fc_logs (filter (\<lambda>c. fc_logger c = r) (inflight w))) @
     pendingLogs (loggers w r)"

text \<open>Entries offered to \<^verbatim>\<open>queueForRemote\<close> of one logger, one call after the other.\<close>

fun enqueue_all :: "nat \<Rightarrow> LogEntry list \<Rightarrow> world \<Rightarrow> world" where
  "enqueue_all r [] w = w"
| "enqueue_all r (e # es) w = enqueue_all r es (queueForRemote r e w)"

text \<open>Appends to the store, each finished before the next starts.\<close>

fun append_all :: "nat \<Rightarrow> LogEntry list \<Rightarrow> world \<Rightarrow> world" where
  "append_all r [] w = w"
| "append_all r (e # es) w = append_all r es (storeLocally r e w)"

definition last_n :: "nat \<Rightarrow> 'a list \<Rightarrow> 'a list" where
  "last_n n xs = drop (length xs - n) xs"

section \<open>Concrete hosts, worlds and entries\<close>

text \<open>
  A host for the concrete runs below. Its \<open>JSON_stringify\<close> prints payloads whose
  strings need no escaping; its \<open>toLocaleTimeString\<close> cuts the time of day out of an
  ISO timestamp.
\<close>

definition digit_char :: "nat \<Rightarrow> char" where
  "digit_char n = ''0123456789'' ! n"

fun nat_text :: "nat \<Rightarrow> string" where
  "nat_text n =
     (if n < 10 then [digit_char n] else nat_text (n div 10) @ [digit_char (n mod 10)])"

definition int_text :: "int \<Rightarrow> string" where
  "int_text i = (if i < 0 then ''-'' @ nat_text (nat (- i)) else nat_text (nat i))"

definition quoted :: "string \<Rightarrow> string" where
  "quoted s = [CHR 0x22] @ s @ [CHR 0x22]"

fun json_text :: "jsval \<Rightarrow> string" where
  "json_text JUndefined = ''undefined''"
| "json_text JNull = ''null''"
| "json_text (JBool b) = (if b then ''true'' else ''false'')"
| "json_text (JNum n) = int_text n"
| "json_text (JStr s) = quoted s"
| "json_text (JArr xs) =
     ''['' @ join '','' (map (\<lambda>v. if v = JUndefined then ''null'' else json_text v) xs) @ '']''"
| "json_text (JObj kvs) =
     ''{'' @ join '','' (map (\<lambda>(k, v). quoted k @ '':'' @ json_text v)
                          (filter (\<lambda>(k, v). v \<noteq> JUndefined) kvs)) @ ''}''"

definition sample_host :: host where
  "sample_host =
     \<lparr>Platform_OS = ''ios'', Platform_Version = ''17.4'',
      toLocaleTimeString = (\<lambda>iso. take 8 (drop 11 iso)),
      JSON_stringify = json_text\<rparr>"

text \<open>
  The world once the module has run \<^verbatim>\<open>export const logger = new Logger()\<close>: the
  singleton is the logger at address 0, and \<^verbatim>\<open>loggingConfig\<close> is the development or
  the production configuration, as \<^verbatim>\<open>__DEV__\<close> says. Addresses not yet allocated
  hold the same values; no method reads them.
\<close>

definition booted :: "bool \<Rightarrow> world" where
  "booted dev =
     snd (new_Logger
       \<lparr>configs = (\<lambda>a. if dev then developmentConfig else productionConfig),
        next_config = 1,
        loggers = (\<lambda>a. \<lparr>config = loggingConfig, logger_context = ''App'',
                         pendingLogs = [], flushTimer = None\<rparr>),
        next_logger = 0, console = [], storage = None,
        timers = (\<lambda>t. None), next_timer = 0, inflight = []\<rparr>)"

definition logger :: nat where
  "logger = 0"

text \<open>
  \<^verbatim>\<open>const apiLogger = logger.withContext('API')\<close> of services/api.ts, in
  production.
\<close>

definition api_world :: world where
  "api_world = snd (withContext logger ''API'' (booted False))"

definition apiLogger :: nat where
  "apiLogger = fst (withContext logger ''API'' (booted False))"

definition only_errors :: ConfigUpdates where
  "only_errors = no_updates\<lparr>u_minLevel := Some L_error\<rparr>"

text \<open>A world whose stored text is not JSON.\<close>

definition corrupt_world :: world where
  "corrupt_world = (booted True)\<lparr>storage := Some (Unparsable ''{oops'')\<rparr>"

text \<open>A configuration whose \<open>minLevel\<close> lets errors only through, and whose
  \<open>remoteMinLevel\<close> accepts every level.\<close>

definition strict_world :: world where
  "strict_world =
     configure logger
       (no_updates\<lparr>u_minLevel := Some L_error, u_remoteMinLevel := Some L_debug,
                   u_enableRemoteLogging := Some True,
                   u_remoteEndpoint := Some (Some ''https://logs.example/api'')\<rparr>)
       (booted True)"

text \<open>The development world after \<^verbatim>\<open>logger.configure({ minLevel: 'none' })\<close>.\<close>

definition silent_world :: world where
  "silent_world =
     configure logger (no_updates\<lparr>u_minLevel := Some L_none\<rparr>) (booted True)"

text \<open>A capacity of zero.\<close>

definition zero_capacity_world :: world where
  "zero_capacity_world =
     configure logger (no_updates\<lparr>u_maxStoredLogs := Some 0\<rparr>) (booted True)"

definition clock :: string where
  "clock = ''2026-11-03T09:15:00.000Z''"

definition entry_of :: "LogLevel \<Rightarrow> string \<Rightarrow> LogEntry" where
  "entry_of l msg =
     \<lparr>timestamp = clock, level = l, message = msg, entry_context = Some ''App'',
      data = None, deviceInfo = None\<rparr>"

definition entry_a :: LogEntry where
  "entry_a = entry_of L_error ''a''"

definition entry_b :: LogEntry where
  "entry_b = entry_of L_warn ''b''"

definition entry_c :: LogEntry where
  "entry_c = entry_of L_error ''c''"

text \<open>The production world after two entries went to the remote queue.\<close>

definition two_pending_world :: world where
  "two_pending_world = enqueue_all logger [entry_a, entry_b] (booted False)"

text \<open>
  The production world after nine entries went to the remote queue: the first of them
  armed the timer.
\<close>

definition nine_pending_world :: world where
  "nine_pending_world =
     enqueue_all logger
       [entry_a, entry_b, entry_c, entry_a, entry_b, entry_c, entry_a, entry_b, entry_c]
       (booted False)"

text \<open>A stored entry whose payload is the number 0, as \<^verbatim>\<open>logger.info('count', 0)\<close> leaves it.\<close>

definition entry_zero :: LogEntry where
  "entry_zero = (entry_of L_info ''count'')\<lparr>data := Some (JNum 0)\<rparr>"

definition sample_error :: js_Error where
  "sample_error =
     \<lparr>err_name = ''TypeError'', err_message = ''x is not a function'', err_stack = None\<rparr>"

section \<open>What each method leaves unchanged\<close>

lemmas sink_defs =
  log_def debug_def info_def warn_def error_def shouldLog_def shouldLogRemote_def
  this_config_def formatEntry_def formatConsoleMessage_def logToConsole_def
  storeLocally_def read_stored_def queueForRemote_def flushRemoteLogs_def
  fetch_settled_def timer_fired_def getStoredLogs_def slice_from_def template_opt_def
  json_entry_def

lemmas object_defs =
  new_Logger_def withContext_def configure_def spread_def pick_def no_updates_def
  loggingConfig_def developmentConfig_def productionConfig_def

lemmas run_defs =
  sample_host_def booted_def logger_def api_world_def apiLogger_def only_errors_def
  corrupt_world_def strict_world_def silent_world_def zero_capacity_world_def clock_def
  entry_of_def
  entry_a_def entry_b_def entry_c_def two_pending_world_def nine_pending_world_def
  entry_zero_def sample_error_def

declare nat_text.simps [simp del]

lemma flush_this_config [simp]: "this_config (flushRemoteLogs r w) a = this_config w a"
  by (simp add: flushRemoteLogs_def this_config_def Let_def split: option.splits)


lemma flush_console [simp]: "console (flushRemoteLogs r w) = console w"
  by (simp add: flushRemoteLogs_def this_config_def Let_def split: option.splits)

lemma flush_storage [simp]: "storage (flushRemoteLogs r w) = storage w"
  by (simp add: flushRemoteLogs_def this_config_def Let_def split: option.splits)

lemma flush_backlog [simp]: "remote_backlog a (flushRemoteLogs r w) = remote_backlog a w"
  by (simp add: flushRemoteLogs_def this_config_def remote_backlog_def Let_def
      split: option.splits)


lemma queue_this_config [simp]: "this_config (queueForRemote r e w) a = this_config w a"
  by (simp add: queueForRemote_def this_config_def Let_def flushRemoteLogs_def
      split: option.splits)


lemma queue_console [simp]: "console (queueForRemote r e w) = console w"
  by (simp add: queueForRemote_def Let_def split: option.splits)

lemma queue_storage [simp]: "storage (queueForRemote r e w) = storage w"
  by (simp add: queueForRemote_def Let_def split: option.splits)

lemma queue_backlog:
  "remote_backlog r (queueForRemote r e w) =
     (if shouldLogRemote w r (level e) then remote_backlog r w @ [e] else remote_backlog r w)"
  by (simp add: queueForRemote_def Let_def split: option.splits)
     (simp add: remote_backlog_def)

lemma console_this_config [simp]: "this_config (logToConsole h r e w) a = this_config w a"
  by (simp add: logToConsole_def this_config_def split: LogLevel.splits)

lemma store_this_config [simp]: "this_config (storeLocally r e w) a = this_config w a"
  by (simp add: storeLocally_def this_config_def Let_def split: sum.splits)

lemma console_backlog [simp]: "remote_backlog a (logToConsole h r e w) = remote_backlog a w"
  by (simp add: logToConsole_def remote_backlog_def split: LogLevel.splits)

lemma store_backlog [simp]: "remote_backlog a (storeLocally r e w) = remote_backlog a w"
  by (simp add: storeLocally_def remote_backlog_def Let_def split: sum.splits)

lemma store_lines [simp]: "console_lines (storeLocally r e w) = console_lines w"
  by (simp add: storeLocally_def console_lines_def Let_def split: sum.splits)

lemma queue_lines [simp]: "console_lines (queueForRemote r e w) = console_lines w"
  by (simp add: console_lines_def)

lemma console_lines_logToConsole:
  "level e \<noteq> L_none \<Longrightarrow>
   console_lines (logToConsole h r e w) =
     (if enableConsole (this_config w r)
      then console_lines w @ [ConsoleLine (level e) (formatConsoleMessage h w r e) (data e)]
      else console_lines w)"
  by (simp add: logToConsole_def console_lines_def split: LogLevel.splits)

text \<open>
  \<open>storeLocally\<close> and \<open>queueForRemote\<close> write different parts of the world, so the
  order in which the two finish inside \<open>log\<close> makes no difference.
\<close>

lemma queue_frame:
  "queueForRemote r e (w\<lparr>console := c, storage := s\<rparr>) =
     (queueForRemote r e w)\<lparr>console := c, storage := s\<rparr>"
  by (simp add: queueForRemote_def flushRemoteLogs_def shouldLogRemote_def this_config_def
      Let_def split: option.splits)

lemma store_as_update:
  "storeLocally r e w =
     w\<lparr>console := console (storeLocally r e w), storage := storage (storeLocally r e w)\<rparr>"
  by (simp add: storeLocally_def Let_def split: sum.splits)

lemma store_after_queue:
  "console (storeLocally r' e' (queueForRemote r e w)) = console (storeLocally r' e' w)"
  "storage (storeLocally r' e' (queueForRemote r e w)) = storage (storeLocally r' e' w)"
  by (simp_all add: storeLocally_def Let_def split: sum.splits)

lemma store_queue_commute:
  "queueForRemote r e (storeLocally r' e' w) = storeLocally r' e' (queueForRemote r e w)"
proof -
  have "queueForRemote r e (storeLocally r' e' w) =
        (queueForRemote r e w)\<lparr>console := console (storeLocally r' e' w),
                                storage := storage (storeLocally r' e' w)\<rparr>"
    using store_as_update [of r' e' w] queue_frame by metis
  also have "\<dots> = storeLocally r' e' (queueForRemote r e w)"
    using store_as_update [of r' e' "queueForRemote r e w"] store_after_queue [of r' e' r e w]
    by simp
  finally show ?thesis .
qed

section \<open>JSON round trips and suffixes of lists\<close>

lemma json_value_defined: "v \<noteq> JUndefined \<Longrightarrow> json_value v \<noteq> JUndefined"
  by (cases v) simp_all

lemma json_value_idem: "json_value (json_value v) = json_value v"
proof (induction v)
  case (JArr xs)
  then show ?case
    by (auto simp add: json_value_defined)
next
  case (JObj kvs)
  let ?g = "\<lambda>(k, v). (k, json_value v)"
  let ?p = "\<lambda>(k :: string, v). v \<noteq> JUndefined"
  have ih: "json_value (json_value v) = json_value v" if "(k, v) \<in> set kvs" for k v
    using JObj.IH that by auto
  have keep: "filter ?p (map ?g (filter ?p ys)) = map ?g (filter ?p ys)" for ys
    by (induction ys) (auto simp add: json_value_defined)
  have twice: "map ?g (map ?g ys) = map ?g ys" if "set ys \<subseteq> set kvs" for ys
    using that ih by (induction ys) auto
  have "set (filter ?p kvs) \<subseteq> set kvs" by auto
  then show ?case
    using keep [of kvs] twice [of "filter ?p kvs"] by simp
qed simp_all

lemma json_entry_idem: "json_entry (json_entry e) = json_entry e"
  by (simp add: json_entry_def json_value_idem json_value_defined split: option.splits)

lemma map_json_entry_idem: "map json_entry (map json_entry xs) = map json_entry xs"
  by (simp add: json_entry_idem)

lemma last_n_map: "map f (last_n n xs) = last_n n (map f xs)"
  by (simp add: last_n_def drop_map)

lemma last_n_append_last_n: "last_n n (last_n n ys @ zs) = last_n n (ys @ zs)"
proof -
  let ?a = "length ys - n"
  have k: "length (ys @ zs) - ?a - n + ?a = length (ys @ zs) - n"
    by (cases "n \<le> length ys") simp_all
  have "last_n n (last_n n ys @ zs) =
        drop (length (drop ?a (ys @ zs)) - n) (drop ?a (ys @ zs))"
    by (simp add: last_n_def)
  also have "\<dots> = drop (length (ys @ zs) - ?a - n + ?a) (ys @ zs)"
    by (simp only: drop_drop length_drop)
  finally show ?thesis
    by (simp only: k last_n_def)
qed

section \<open>Filling the remote queue below the batch size\<close>

text \<open>
  Entries that qualify for the remote queue, fewer than would fill a batch: each is
  appended, and no fetch starts.
\<close>

lemma enqueue_all_below_threshold:
  "\<forall>e \<in> set es. shouldLogRemote w r (level e) \<Longrightarrow>
   length (pendingLogs (loggers w r)) + length es < 10 \<Longrightarrow>
   pendingLogs (loggers (enqueue_all r es w) r) = pendingLogs (loggers w r) @ es \<and>
   inflight (enqueue_all r es w) = inflight w \<and>
   this_config (enqueue_all r es w) r = this_config w r"
proof (induction es arbitrary: w)
  case Nil
  then show ?case by simp
next
  case (Cons e es)
  let ?w = "queueForRemote r e w"
  from Cons.prems have q: "shouldLogRemote w r (level e)" by simp
  from Cons.prems have small: "length (pendingLogs (loggers w r) @ [e]) < 10" by simp
  have p: "pendingLogs (loggers ?w r) = pendingLogs (loggers w r) @ [e]"
    and i: "inflight ?w = inflight w"
    using q small by (auto simp add: queueForRemote_def Let_def split: option.splits)
  have "\<forall>x \<in> set es. shouldLogRemote ?w r (level x)"
    using Cons.prems(1) by (simp add: shouldLogRemote_def)
  moreover have "length (pendingLogs (loggers ?w r)) + length es < 10"
    using Cons.prems(2) p by simp
  ultimately show ?case
    using Cons.IH [of ?w] p i by simp
qed

section \<open>The level threshold and the fan-out\<close>

text \<open>
  C1. A leveled call whose level ranks below \<open>minLevel\<close> returns the world as it was: no
  console call, no write to the store, nothing queued, no timer, no fetch. Any other
  call builds one entry with \<open>formatEntry\<close> and hands that same entry to
  \<open>logToConsole\<close>, \<open>storeLocally\<close> and \<open>queueForRemote\<close>. The four public methods are this
  call at their level.
\<close>

theorem log_threshold_fanout:
  "log h r now l msg d w =
     (if LOG_LEVELS l < LOG_LEVELS (minLevel (this_config w r)) then w
      else queueForRemote r (formatEntry h w r now l msg d)
             (storeLocally r (formatEntry h w r now l msg d)
                (logToConsole h r (formatEntry h w r now l msg d) w)))
   \<and> debug h r now msg d w = log h r now L_debug msg d w
   \<and> info h r now msg d w = log h r now L_info msg d w
   \<and> warn h r now msg d w = log h r now L_warn msg d w
   \<and> error h r now msg d w = log h r now L_error msg d w"
  by (simp add: log_def shouldLog_def Let_def not_le debug_def info_def warn_def error_def)

text \<open>
  In production (\<open>minLevel\<close> is info) a debug call changes nothing, and an info call
  leaves its one entry in the store.
\<close>

theorem log_threshold_fanout_witness:
  "log sample_host logger clock L_debug ''x'' JUndefined (booted False) = booted False
   \<and> getStoredLogs (log sample_host logger clock L_info ''x'' JUndefined (booted False)) =
       [\<lparr>timestamp = clock, level = L_info, message = ''x'', entry_context = Some ''App'',
         data = None, deviceInfo = Some (''ios'', ''17.4'')\<rparr>]"
  using log_threshold_fanout [of sample_host logger clock L_debug "''x''" JUndefined "booted False"]
        log_threshold_fanout [of sample_host logger clock L_info "''x''" JUndefined "booted False"]
  by (simp add: sink_defs object_defs run_defs Let_def)

section \<open>The bounded store\<close>

text \<open>
  C2, at the capacity 0. C2 asks that the store never hold more than
  \<open>maxStoredLogs\<close> entries. With \<open>maxStoredLogs = 0\<close> the test
  \<^verbatim>\<open>logs.length > maxStoredLogs\<close> holds, but \<^verbatim>\<open>logs.slice(-0)\<close> is \<^verbatim>\<open>logs.slice(0)\<close>,
  the whole array: nothing is dropped, and the store grows with every append.
\<close>

theorem storeLocally_zero_capacity:
  "maxStoredLogs (this_config zero_capacity_world logger) = 0
   \<and> enableLocalStorage (this_config zero_capacity_world logger)
   \<and> getStoredLogs (storeLocally logger entry_a zero_capacity_world) = [entry_a]
   \<and> getStoredLogs (append_all logger [entry_a, entry_b, entry_c] zero_capacity_world) =
       [entry_a, entry_b, entry_c]"
  by (simp add: sink_defs object_defs run_defs Let_def)

lemma storeLocally_positive:
  assumes "enableLocalStorage (this_config w r)"
      and "read_stored (storage w) = Inr xs"
      and "0 < maxStoredLogs (this_config w r)"
  shows "storage (storeLocally r e w) =
           Some (Serialized
             (last_n (nat (maxStoredLogs (this_config w r))) (map json_entry (xs @ [e]))))"
proof -
  let ?m = "maxStoredLogs (this_config w r)"
  have n: "nat (1 + int (length xs)) = Suc (length xs)" by simp
  have "slice_from (- ?m) (xs @ [e]) = last_n (nat ?m) (xs @ [e])"
    if "?m < int (length (xs @ [e]))"
    using that assms(3)
    by (simp add: slice_from_def last_n_def Let_def max_def nat_diff_distrib n)
  moreover have "xs @ [e] = last_n (nat ?m) (xs @ [e])"
    if "\<not> ?m < int (length (xs @ [e]))"
    using that by (simp add: last_n_def)
  ultimately have "storage (storeLocally r e w) =
      Some (Serialized (map json_entry (last_n (nat ?m) (xs @ [e]))))"
    using assms(1,2) by (simp add: storeLocally_def Let_def)
  then show ?thesis by (simp only: last_n_map)
qed

text \<open>
  For a capacity of 1 or more, sequential appends leave in the store the last
  \<open>maxStoredLogs\<close> entries of what it held followed by what was appended, in order and
  as JSON keeps them; the store never holds more than \<open>maxStoredLogs\<close> entries after an
  append, and once \<open>maxStoredLogs\<close> entries or more were appended it holds the last
  \<open>maxStoredLogs\<close> of them.
\<close>

theorem append_all_keeps_last:
  assumes "enableLocalStorage (this_config w r)"
      and "read_stored (storage w) = Inr xs"
      and "0 < maxStoredLogs (this_config w r)"
      and "es \<noteq> []"
  shows "getStoredLogs (append_all r es w) =
           last_n (nat (maxStoredLogs (this_config w r))) (map json_entry (xs @ es))
       \<and> length (getStoredLogs (append_all r es w)) \<le> nat (maxStoredLogs (this_config w r))
       \<and> (nat (maxStoredLogs (this_config w r)) \<le> length es \<longrightarrow>
            getStoredLogs (append_all r es w) =
              last_n (nat (maxStoredLogs (this_config w r))) (map json_entry es))"
proof -
  let ?m = "nat (maxStoredLogs (this_config w r))"
  have main: "enableLocalStorage (this_config v r) \<Longrightarrow> read_stored (storage v) = Inr ys \<Longrightarrow>
      maxStoredLogs (this_config v r) = maxStoredLogs (this_config w r) \<Longrightarrow>
      getStoredLogs (append_all r (z # zs) v) = last_n ?m (map json_entry (ys @ z # zs))"
    for v ys z zs
  proof (induction zs arbitrary: v ys z)
    case Nil
    then show ?case
      using storeLocally_positive [of v r ys z] assms(3)
      by (simp add: getStoredLogs_def read_stored_def)
  next
    case (Cons a zs)
    let ?v = "storeLocally r z v"
    let ?ys = "last_n ?m (map json_entry (ys @ [z]))"
    have st: "storage ?v = Some (Serialized ?ys)"
      using storeLocally_positive [of v r ys z] Cons.prems assms(3) by simp
    have "getStoredLogs (append_all r (a # zs) ?v) = last_n ?m (map json_entry (?ys @ a # zs))"
      using Cons.IH [of ?v ?ys a] Cons.prems st
      by (simp add: read_stored_def)
    moreover have "map json_entry ?ys = ?ys"
      by (simp only: last_n_map map_json_entry_idem)
    then have "map json_entry (?ys @ a # zs) = ?ys @ map json_entry (a # zs)"
      by (simp only: map_append)
    ultimately show ?case
      by (simp add: last_n_append_last_n)
  qed
  obtain z zs where es: "es = z # zs" using assms(4) by (cases es) auto
  have eq: "getStoredLogs (append_all r es w) = last_n ?m (map json_entry (xs @ es))"
    using main [of w xs z zs] assms(1,2) es by simp
  have len: "length (last_n ?m (map json_entry (xs @ es))) \<le> ?m"
    by (simp add: last_n_def)
  have suffix: "?m \<le> length es \<longrightarrow>
      last_n ?m (map json_entry (xs @ es)) = last_n ?m (map json_entry es)"
    by (simp add: last_n_def)
  show ?thesis using eq len suffix by simp
qed

text \<open>With a capacity of 3, five appends to the empty store leave the last three.\<close>

lemma append_all_capacity_3:
  "getStoredLogs
     (append_all logger
        [entry_of L_info ''e1'', entry_of L_info ''e2'', entry_of L_info ''e3'',
         entry_of L_info ''e4'', entry_of L_info ''e5'']
        (configure logger (no_updates\<lparr>u_maxStoredLogs := Some 3\<rparr>) (booted True))) =
   [entry_of L_info ''e3'', entry_of L_info ''e4'', entry_of L_info ''e5'']"
proof -
  let ?w = "configure logger (no_updates\<lparr>u_maxStoredLogs := Some 3\<rparr>) (booted True)"
  have c: "this_config ?w logger = developmentConfig\<lparr>maxStoredLogs := 3\<rparr>"
    by (simp add: this_config_def object_defs run_defs)
  have h1: "enableLocalStorage (this_config ?w logger)"
    by (simp add: c developmentConfig_def)
  have h2: "read_stored (storage ?w) = Inr []"
    by (simp add: read_stored_def object_defs run_defs)
  have h3: "0 < maxStoredLogs (this_config ?w logger)"
    by (simp add: c)
  have j: "json_entry (entry_of l m) = entry_of l m" for l m
    by (simp add: json_entry_def entry_of_def)
  from append_all_keeps_last [OF h1 h2 h3, of "[entry_of L_info ''e1'', entry_of L_info ''e2'',
         entry_of L_info ''e3'', entry_of L_info ''e4'', entry_of L_info ''e5'']"]
  show ?thesis
    by (simp add: c j last_n_def)
qed

section \<open>Derived loggers and their configuration\<close>

text \<open>
  C3 fails as stated: the singleton derives \<open>apiLogger\<close> and is then configured to let
  errors only through. The singleton reads the new \<open>minLevel\<close>, the derived logger still
  reads the old one.
\<close>

theorem configure_not_shared_counterexample:
  "minLevel (this_config (configure logger only_errors api_world) logger) = L_error
   \<and> minLevel (this_config (configure logger only_errors api_world) apiLogger) = L_info"
  by (simp add: sink_defs object_defs run_defs Let_def)

text \<open>
  C3, amended. A logger \<open>d\<close> derived by \<open>withContext\<close> from \<open>r\<close> holds the configuration
  object \<open>r\<close> holds at that moment, so both read the same values. \<open>configure\<close> on either
  of them gives that logger a merged copy: it reads the merged values, and the other
  one reads what it read before.
\<close>

theorem withContext_configure:
  assumes "withContext r ctx w = (d, w1)"
      and "r < next_logger w"
      and "config (loggers w r) < next_config w"
  shows "config (loggers w1 d) = config (loggers w1 r) \<and>
         this_config w1 d = this_config w1 r \<and>
         this_config (configure r u w1) r = spread (this_config w1 r) u \<and>
         this_config (configure r u w1) d = this_config w1 d \<and>
         this_config (configure d u w1) d = spread (this_config w1 d) u \<and>
         this_config (configure d u w1) r = this_config w1 r"
  using assms
  by (auto simp add: withContext_def new_Logger_def configure_def this_config_def Let_def)

theorem withContext_configure_witness:
  "withContext logger ''API'' (booted False) = (apiLogger, api_world)
   \<and> logger < next_logger (booted False)
   \<and> config (loggers (booted False) logger) < next_config (booted False)
   \<and> this_config api_world apiLogger = productionConfig
   \<and> this_config api_world logger = productionConfig
   \<and> this_config (configure logger only_errors api_world) logger =
       productionConfig\<lparr>minLevel := L_error\<rparr>
   \<and> this_config (configure logger only_errors api_world) apiLogger = productionConfig
   \<and> this_config (configure apiLogger only_errors api_world) apiLogger =
       productionConfig\<lparr>minLevel := L_error\<rparr>
   \<and> this_config (configure apiLogger only_errors api_world) logger = productionConfig"
proof -
  have h1: "withContext logger ''API'' (booted False) = (apiLogger, api_world)"
    by (simp add: apiLogger_def api_world_def)
  have h2: "logger < next_logger (booted False)"
    by (simp add: logger_def booted_def new_Logger_def)
  have h3: "config (loggers (booted False) logger) < next_config (booted False)"
    by (simp add: logger_def booted_def new_Logger_def loggingConfig_def)
  have c: "this_config api_world logger = productionConfig"
    by (simp add: sink_defs object_defs run_defs Let_def)
  have s: "spread productionConfig only_errors = productionConfig\<lparr>minLevel := L_error\<rparr>"
    by (simp add: object_defs run_defs)
  from withContext_configure [OF h1 h2 h3, of only_errors] c s h1 h2 h3
  show ?thesis by simp
qed

text \<open>
  \<open>updateLoggingConfig\<close> writes into the module-level object, and every logger that
  still holds that object reads the update.
\<close>

lemma updateLoggingConfig_shared:
  "config (loggers w r) = loggingConfig \<Longrightarrow>
   this_config (updateLoggingConfig u w) r = spread (this_config w r) u"
  by (simp add: updateLoggingConfig_def this_config_def)

section \<open>An append over a stored text that does not parse\<close>

text \<open>
  C7 fails as stated: the stored text is not JSON, the append writes nothing, and a
  read right after it gives the empty sequence, not one ending in the new entry.
\<close>

theorem storeLocally_unparsable_counterexample:
  "enableLocalStorage (this_config corrupt_world logger)
   \<and> storage (storeLocally logger entry_a corrupt_world) = Some (Unparsable ''{oops'')
   \<and> getStoredLogs (storeLocally logger entry_a corrupt_world) = []"
  by (simp add: sink_defs object_defs run_defs Let_def)

text \<open>
  C7, amended. When the stored value is a non-empty text that fails to deserialize,
  an append does not raise: the exception of \<^verbatim>\<open>JSON.parse\<close> ends in the catch
  block, which reports on the console and writes nothing. The stored text stays as it
  was, and a read right after the append returns the empty sequence.
\<close>

theorem storeLocally_unparsable:
  assumes "enableLocalStorage (this_config w r)"
      and "storage w = Some (Unparsable s)"
      and "s \<noteq> []"
  shows "storeLocally r e w =
           w\<lparr>console := console w @ [ConsoleFailure ''Failed to store log:'' SyntaxError]\<rparr>
       \<and> storage (storeLocally r e w) = Some (Unparsable s)
       \<and> getStoredLogs (storeLocally r e w) = []"
  using assms by (simp add: storeLocally_def read_stored_def getStoredLogs_def)

theorem storeLocally_unparsable_witness:
  "enableLocalStorage (this_config corrupt_world logger)
   \<and> storage corrupt_world = Some (Unparsable ''{oops'')
   \<and> ''{oops'' \<noteq> []
   \<and> console (storeLocally logger entry_b corrupt_world) =
       [ConsoleFailure ''Failed to store log:'' SyntaxError]
   \<and> getStoredLogs (storeLocally logger entry_b corrupt_world) = []"
proof -
  have h1: "enableLocalStorage (this_config corrupt_world logger)"
    by (simp add: sink_defs object_defs run_defs)
  have h2: "storage corrupt_world = Some (Unparsable ''{oops'')"
    by (simp add: run_defs)
  have h3: "''{oops'' \<noteq> []" by simp
  have c: "console corrupt_world = []"
    by (simp add: object_defs run_defs)
  from storeLocally_unparsable [OF h1 h2 h3, of entry_b] c h1 h2
  show ?thesis by (simp add: getStoredLogs_def read_stored_def)
qed

section \<open>Logging an error object\<close>

text \<open>
  C8 fails as stated, on two counts. With \<open>minLevel\<close> none, \<open>logError\<close> emits no entry:
  the world is as it was. And where it does emit one, in production, with no
  \<open>context\<close> argument: the message of the error is the message of the entry, while the
  context of the entry is the label of the logger, \<open>App\<close>.
\<close>

theorem logError_silent_counterexample:
  "minLevel (this_config silent_world logger) = L_none
   \<and> logError sample_host logger clock sample_error None silent_world = silent_world
   \<and> map entry_context
       (remote_backlog logger
          (logError sample_host logger clock sample_error None (booted False))) =
       [Some ''App'']
   \<and> map message
       (remote_backlog logger
          (logError sample_host logger clock sample_error None (booted False))) =
       [''x is not a function'']"
  by (simp add: logError_def remote_backlog_def sink_defs object_defs run_defs Let_def)

text \<open>
  C8, amended. \<open>logError\<close> is one call at the level error: it emits nothing when
  \<open>rank error < rank minLevel\<close>, that is when \<open>minLevel\<close> is none, and otherwise hands one
  error-level entry to the three sinks. The data of that entry is exactly the name,
  the message and the stack of the error object. Its message is the \<open>context\<close>
  argument, and the message of the error when that argument is not given or is the
  empty string. Its context is the label of the logger, whatever the argument.
\<close>

theorem logError_entry:
  "logError h r now err ctx w =
     (if LOG_LEVELS L_error < LOG_LEVELS (minLevel (this_config w r)) then w
      else (let entry =
                  \<lparr>timestamp = now, level = L_error,
                   message = (case ctx of
                                None \<Rightarrow> err_message err
                              | Some c \<Rightarrow> if c = [] then err_message err else c),
                   entry_context = Some (logger_context (loggers w r)),
                   data = Some (JObj [(''name'', JStr (err_name err)),
                                      (''message'', JStr (err_message err)),
                                      (''stack'', (case err_stack err of
                                                     None \<Rightarrow> JUndefined
                                                   | Some s \<Rightarrow> JStr s))]),
                   deviceInfo = (if includeDeviceInfo (this_config w r)
                                 then Some (Platform_OS h, Platform_Version h) else None)\<rparr>
            in queueForRemote r entry (storeLocally r entry (logToConsole h r entry w))))
   \<and> (LOG_LEVELS L_error < LOG_LEVELS (minLevel (this_config w r))) =
       (minLevel (this_config w r) = L_none)"
proof -
  have "(LOG_LEVELS L_error < LOG_LEVELS m) = (m = L_none)" for m
    by (cases m) simp_all
  then show ?thesis
    by (simp add: logError_def log_def shouldLog_def formatEntry_def Let_def not_le)
qed

text \<open>
  In development the console shows the entry as it was built, and the store holds it
  as JSON keeps it: without the \<open>stack\<close> that the error object does not have.
\<close>

theorem logError_entry_witness:
  "console_lines (logError sample_host logger clock sample_error None (booted True)) =
     [ConsoleLine L_error ''[09:15:00] [ERROR] [App] x is not a function''
        (Some (JObj [(''name'', JStr ''TypeError''),
                     (''message'', JStr ''x is not a function''),
                     (''stack'', JUndefined)]))]
   \<and> getStoredLogs (logError sample_host logger clock sample_error None (booted True)) =
     [\<lparr>timestamp = clock, level = L_error, message = ''x is not a function'',
       entry_context = Some ''App'',
       data = Some (JObj [(''name'', JStr ''TypeError''),
                          (''message'', JStr ''x is not a function'')]),
       deviceInfo = Some (''ios'', ''17.4'')\<rparr>]
   \<and> map message
       (getStoredLogs (logError sample_host logger clock sample_error (Some ''login'')
          (booted True))) = [''login'']"
  using logError_entry [of sample_host logger clock sample_error None "booted True"]
        logError_entry [of sample_host logger clock sample_error "Some ''login''" "booted True"]
  by (simp add: sink_defs object_defs run_defs console_lines_def Let_def)

section \<open>The export of the stored entries\<close>

text \<open>
  C9, at a stored entry whose payload is the number 0. C9 asks for the data
  segment whenever the entry carries a payload. \<open>formatEntry\<close> and \<open>logToConsole\<close> test
  \<^verbatim>\<open>data !== undefined\<close>; the template of \<open>exportLogs\<close> tests \<^verbatim>\<open>log.data ? ... : ''\<close>,
  and 0 is falsy: the line ends after the message, whatever the host prints for 0.
\<close>

theorem exportLogs_drops_falsy_payload:
  "data entry_zero = Some (JNum 0)
   \<and> exportLogs h (w\<lparr>storage := Some (Serialized [entry_zero])\<rparr>) =
       ''2026-11-03T09:15:00.000Z [INFO] [App] count''
   \<and> exportLogs h (w\<lparr>storage := Some (Serialized [entry_zero, entry_a])\<rparr>) =
       ''2026-11-03T09:15:00.000Z [INFO] [App] count'' @ [CHR 0x0A] @
       ''2026-11-03T09:15:00.000Z [ERROR] [App] a''"
  by (simp add: exportLogs_def export_line_def getStoredLogs_def read_stored_def
      template_opt_def run_defs)

section \<open>Console and remote filtering\<close>

text \<open>
  C5 fails as stated: with \<open>minLevel\<close> error and \<open>remoteMinLevel\<close> debug, a warn call
  ranks at or above the remote threshold, and still nothing reaches the remote
  queue: the call ended at the test against \<open>minLevel\<close>.
\<close>

theorem remote_below_minLevel_counterexample:
  "enableRemoteLogging (this_config strict_world logger)
   \<and> LOG_LEVELS (remoteMinLevel (this_config strict_world logger)) \<le> LOG_LEVELS L_warn
   \<and> pendingLogs (loggers (warn sample_host logger clock ''m'' JUndefined strict_world) logger) = []
   \<and> inflight (warn sample_host logger clock ''m'' JUndefined strict_world) = []"
  by (simp add: sink_defs object_defs run_defs Let_def)

text \<open>
  C5, amended. A call at a level \<open>l\<close> (debug, info, warn or error) reaches the console
  iff the console is enabled and \<open>rank l \<ge> rank minLevel\<close>; it reaches the remote queue
  iff remote logging is enabled, \<open>rank l \<ge> rank minLevel\<close> and
  \<open>rank l \<ge> rank remoteMinLevel\<close>. The remote threshold filters on top of the threshold of
  the call, not independently of it: an entry can be on the console and kept from the
  remote queue by the thresholds, while the converse takes a disabled console.
\<close>

theorem sinks_filtering:
  assumes "l \<noteq> L_none"
  shows "console_lines (log h r now l msg d w) =
           (if enableConsole (this_config w r) \<and>
               LOG_LEVELS l \<ge> LOG_LEVELS (minLevel (this_config w r))
            then console_lines w @
                   [ConsoleLine l (formatConsoleMessage h w r (formatEntry h w r now l msg d))
                      (data (formatEntry h w r now l msg d))]
            else console_lines w)
       \<and> remote_backlog r (log h r now l msg d w) =
           (if enableRemoteLogging (this_config w r) \<and>
               LOG_LEVELS l \<ge> LOG_LEVELS (minLevel (this_config w r)) \<and>
               LOG_LEVELS l \<ge> LOG_LEVELS (remoteMinLevel (this_config w r))
            then remote_backlog r w @ [formatEntry h w r now l msg d]
            else remote_backlog r w)"
proof -
  let ?e = "formatEntry h w r now l msg d"
  have lv: "level ?e = l" by (simp add: formatEntry_def)
  have a: "console_lines (log h r now l msg d w) =
           (if shouldLog w r l then console_lines (logToConsole h r ?e w) else console_lines w)"
    by (simp add: log_def Let_def)
  have b: "remote_backlog r (log h r now l msg d w) =
           (if shouldLog w r l \<and> shouldLogRemote w r l then remote_backlog r w @ [?e]
            else remote_backlog r w)"
    by (simp add: log_def Let_def queue_backlog lv shouldLogRemote_def)
  from assms lv have c: "level ?e \<noteq> L_none" by simp
  show ?thesis
    unfolding a b console_lines_logToConsole [OF c]
    by (auto simp add: shouldLog_def shouldLogRemote_def lv)
qed

text \<open>
  In development a debug call is on the console and not in the remote queue; in
  production a warn call is in the remote queue and not on the console, which is
  disabled there.
\<close>

theorem sinks_filtering_witness:
  "L_debug \<noteq> L_none \<and> L_warn \<noteq> L_none
   \<and> console_lines (log sample_host logger clock L_debug ''m'' JUndefined (booted True)) =
       [ConsoleLine L_debug ''[09:15:00] [DEBUG] [App] m'' None]
   \<and> remote_backlog logger
       (log sample_host logger clock L_debug ''m'' JUndefined (booted True)) = []
   \<and> console_lines (log sample_host logger clock L_warn ''m'' JUndefined (booted False)) = []
   \<and> remote_backlog logger
       (log sample_host logger clock L_warn ''m'' JUndefined (booted False)) =
       [\<lparr>timestamp = clock, level = L_warn, message = ''m'', entry_context = Some ''App'',
         data = None, deviceInfo = Some (''ios'', ''17.4'')\<rparr>]"
proof -
  have h1: "L_debug \<noteq> L_none" and h2: "L_warn \<noteq> L_none" by simp_all
  have dev: "this_config (booted True) logger = developmentConfig"
    and prod: "this_config (booted False) logger = productionConfig"
    and l0: "console_lines (booted dev) = []"
    and b0: "remote_backlog logger (booted dev) = []" for dev
    by (simp_all add: this_config_def console_lines_def remote_backlog_def object_defs run_defs)
  from sinks_filtering [OF h1, of sample_host logger clock "''m''" JUndefined "booted True"]
       sinks_filtering [OF h2, of sample_host logger clock "''m''" JUndefined "booted False"]
  show ?thesis
    by (simp add: dev prod l0 b0 formatEntry_def formatConsoleMessage_def template_opt_def
        developmentConfig_def productionConfig_def)
       (simp add: object_defs run_defs)
qed

section \<open>Batching: the size trigger and the timer\<close>

text \<open>
  C6. An entry that qualifies for the remote queue is appended to it. If the queue
  then holds 10 entries or more, \<open>flushRemoteLogs\<close> runs at once, and clears any timer.
  If it holds fewer and no timer is armed, a timeout of 5000 is armed whose firing
  runs \<open>flushRemoteLogs\<close> of this logger. If it holds fewer and a timer is armed, the
  timers stay as they are: no second one is created.
\<close>

theorem queueForRemote_batching:
  assumes "shouldLogRemote w r (level e)"
  shows "(10 \<le> length (pendingLogs (loggers w r) @ [e]) \<longrightarrow>
            queueForRemote r e w =
              flushRemoteLogs r
                (w\<lparr>loggers := (loggers w)
                     (r := (loggers w r)\<lparr>pendingLogs := pendingLogs (loggers w r) @ [e]\<rparr>)\<rparr>)
            \<and> flushTimer (loggers (queueForRemote r e w) r) = None)
       \<and> (length (pendingLogs (loggers w r) @ [e]) < 10 \<and> flushTimer (loggers w r) = None \<longrightarrow>
            pendingLogs (loggers (queueForRemote r e w) r) = pendingLogs (loggers w r) @ [e]
            \<and> flushTimer (loggers (queueForRemote r e w) r) = Some (next_timer w)
            \<and> timers (queueForRemote r e w) = (timers w)(next_timer w \<mapsto> (5000, r))
            \<and> inflight (queueForRemote r e w) = inflight w
            \<and> timer_fired (next_timer w) (queueForRemote r e w) =
                flushRemoteLogs r
                  ((queueForRemote r e w)
                     \<lparr>timers := (timers (queueForRemote r e w))(next_timer w := None)\<rparr>))
       \<and> (length (pendingLogs (loggers w r) @ [e]) < 10 \<and> flushTimer (loggers w r) \<noteq> None \<longrightarrow>
            pendingLogs (loggers (queueForRemote r e w) r) = pendingLogs (loggers w r) @ [e]
            \<and> flushTimer (loggers (queueForRemote r e w) r) = flushTimer (loggers w r)
            \<and> timers (queueForRemote r e w) = timers w
            \<and> next_timer (queueForRemote r e w) = next_timer w
            \<and> inflight (queueForRemote r e w) = inflight w)"
  using assms
  by (auto simp add: queueForRemote_def Let_def timer_fired_def flushRemoteLogs_def
      split: option.splits)

text \<open>
  In production: the first entry arms the timer 0 for 5000, the second leaves the
  timers alone, and the tenth is posted at once with the nine before it, in order,
  the timer being cleared.
\<close>

theorem queueForRemote_batching_witness:
  "shouldLogRemote (booted False) logger (level entry_a)
   \<and> flushTimer (loggers (queueForRemote logger entry_a (booted False)) logger) = Some 0
   \<and> timers (queueForRemote logger entry_a (booted False)) 0 = Some (5000, logger)
   \<and> shouldLogRemote (queueForRemote logger entry_a (booted False)) logger (level entry_b)
   \<and> timers (queueForRemote logger entry_b (queueForRemote logger entry_a (booted False))) =
       timers (queueForRemote logger entry_a (booted False))
   \<and> pendingLogs (loggers
       (queueForRemote logger entry_b (queueForRemote logger entry_a (booted False))) logger) =
       [entry_a, entry_b]
   \<and> shouldLogRemote nine_pending_world logger (level entry_a)
   \<and> flushTimer (loggers nine_pending_world logger) = Some 0
   \<and> flushTimer (loggers (queueForRemote logger entry_a nine_pending_world) logger) = None
   \<and> inflight (queueForRemote logger entry_a nine_pending_world) =
       [\<lparr>fc_logger = logger, fc_url = ''https://your-logging-server.com/api/logs'',
         fc_appName = ''FrugalBitesVendor'',
         fc_logs = [entry_a, entry_b, entry_c, entry_a, entry_b, entry_c,
                    entry_a, entry_b, entry_c, entry_a]\<rparr>]"
proof -
  let ?w1 = "queueForRemote logger entry_a (booted False)"
  have h1: "shouldLogRemote (booted False) logger (level entry_a)"
    by (simp add: sink_defs object_defs run_defs)
  have h2: "shouldLogRemote ?w1 logger (level entry_b)"
    by (simp add: shouldLogRemote_def)
       (simp add: sink_defs object_defs run_defs)
  have h3: "shouldLogRemote nine_pending_world logger (level entry_a)"
    by (simp add: nine_pending_world_def shouldLogRemote_def)
       (simp add: sink_defs object_defs run_defs)
  have s0: "pendingLogs (loggers (booted False) logger) = []"
    "flushTimer (loggers (booted False) logger) = None"
    "next_timer (booted False) = 0"
    by (simp_all add: object_defs run_defs)
  from queueForRemote_batching [OF h1] s0
  have c1: "pendingLogs (loggers ?w1 logger) = [entry_a]"
    "flushTimer (loggers ?w1 logger) = Some 0"
    "timers ?w1 = (timers (booted False))(0 \<mapsto> (5000, logger))"
    by simp_all
  from queueForRemote_batching [OF h2] c1
  have c2: "pendingLogs (loggers (queueForRemote logger entry_b ?w1) logger) = [entry_a, entry_b]"
    "timers (queueForRemote logger entry_b ?w1) = timers ?w1"
    by simp_all
  have s9: "pendingLogs (loggers nine_pending_world logger) =
      [entry_a, entry_b, entry_c, entry_a, entry_b, entry_c, entry_a, entry_b, entry_c]"
    "flushTimer (loggers nine_pending_world logger) = Some 0"
    by (simp_all add: sink_defs object_defs run_defs Let_def)
  have full: "10 \<le> length (pendingLogs (loggers nine_pending_world logger) @ [entry_a])"
    using s9 by simp
  from queueForRemote_batching [OF h3] full
  have c3: "flushTimer (loggers (queueForRemote logger entry_a nine_pending_world) logger) = None"
    by blast
  have c4: "inflight (queueForRemote logger entry_a nine_pending_world) =
       [\<lparr>fc_logger = logger, fc_url = ''https://your-logging-server.com/api/logs'',
         fc_appName = ''FrugalBitesVendor'',
         fc_logs = [entry_a, entry_b, entry_c, entry_a, entry_b, entry_c,
                    entry_a, entry_b, entry_c, entry_a]\<rparr>]"
    by (simp add: sink_defs object_defs run_defs Let_def)
  from h1 h2 h3 c1 c2 s9 c3 c4 show ?thesis by simp
qed

section \<open>A flush that fails\<close>

text \<open>
  C4, at a response of status 500. C4 asks that a batch whose delivery fails, by a
  transport error or by a non-success response, be put back in front of the queue,
  and the comment of the catch block says \<^verbatim>\<open>Put logs back if send failed\<close>. But the
  promise of \<^verbatim>\<open>fetch\<close> resolves on every response, and \<open>flushRemoteLogs\<close> never reads
  the status. Here the batch \<open>[a, b]\<close> is posted, \<open>c\<close> is enqueued while the fetch is
  pending, and the endpoint answers 500: the catch block does not run, the queue
  holds \<open>c\<close> alone, and the flush after that posts \<open>c\<close> alone. \<open>a\<close> and \<open>b\<close> are lost.
\<close>

theorem flushRemoteLogs_error_response_drops_batch:
  "map fc_logs (inflight (flushRemoteLogs logger two_pending_world)) = [[entry_a, entry_b]]
   \<and> pendingLogs (loggers
       (fetch_settled 0 (Responded 500)
          (queueForRemote logger entry_c (flushRemoteLogs logger two_pending_world))) logger) =
       [entry_c]
   \<and> map fc_logs (inflight (flushRemoteLogs logger
       (fetch_settled 0 (Responded 500)
          (queueForRemote logger entry_c (flushRemoteLogs logger two_pending_world))))) =
       [[entry_c]]"
  by (simp add: sink_defs object_defs run_defs Let_def)

text \<open>
  The run in which the code does requeue: the batch is posted, fewer than 10 entries
  are enqueued through the same logger, and then the promise of \<^verbatim>\<open>fetch\<close> rejects,
  with nothing else in between (no other fetch of this logger settles, no timer
  fires). The queue is then the batch in its order followed by those entries; the
  next flush posts exactly that sequence, and its success leaves the queue empty.
  In the same run a response, of any status, leaves in the queue the entries
  enqueued meanwhile, and nothing of the batch.
\<close>

lemma failed_flush_requeues:
  assumes "pendingLogs (loggers w r) = batch" and "batch \<noteq> []"
      and "remoteEndpoint (this_config w r) = Some url" and "url \<noteq> []"
      and "\<forall>e \<in> set es. shouldLogRemote w r (level e)" and "length es < 10"
  shows "inflight (flushRemoteLogs r w) = inflight w @
           [\<lparr>fc_logger = r, fc_url = url, fc_appName = appName (this_config w r),
             fc_logs = batch\<rparr>]
       \<and> pendingLogs (loggers
           (fetch_settled (length (inflight w)) NetworkError
              (enqueue_all r es (flushRemoteLogs r w))) r) = batch @ es
       \<and> inflight (flushRemoteLogs r
           (fetch_settled (length (inflight w)) NetworkError
              (enqueue_all r es (flushRemoteLogs r w)))) = inflight w @
           [\<lparr>fc_logger = r, fc_url = url, fc_appName = appName (this_config w r),
             fc_logs = batch @ es\<rparr>]
       \<and> pendingLogs (loggers
           (fetch_settled (length (inflight w)) (Responded 200)
             (flushRemoteLogs r
               (fetch_settled (length (inflight w)) NetworkError
                  (enqueue_all r es (flushRemoteLogs r w))))) r) = []
       \<and> pendingLogs (loggers
           (fetch_settled (length (inflight w)) (Responded status)
              (enqueue_all r es (flushRemoteLogs r w))) r) = es"
proof -
  let ?call = "\<lparr>fc_logger = r, fc_url = url, fc_appName = appName (this_config w r),
                fc_logs = batch\<rparr>"
  let ?w1 = "flushRemoteLogs r w"
  let ?w2 = "enqueue_all r es ?w1"
  let ?w3 = "fetch_settled (length (inflight w)) NetworkError ?w2"
  let ?w4 = "flushRemoteLogs r ?w3"
  have i1: "inflight ?w1 = inflight w @ [?call]"
    and p1: "pendingLogs (loggers ?w1 r) = []"
    using assms(1-4)
    by (auto simp add: flushRemoteLogs_def this_config_def Let_def split: option.splits)
  have q1: "\<forall>e \<in> set es. shouldLogRemote ?w1 r (level e)"
    using assms(5) by (simp add: shouldLogRemote_def)
  have l1: "length (pendingLogs (loggers ?w1 r)) + length es < 10"
    using assms(6) p1 by simp
  note step = enqueue_all_below_threshold [OF q1 l1]
  have p2: "pendingLogs (loggers ?w2 r) = es" using step p1 by simp
  have i2: "inflight ?w2 = inflight w @ [?call]" using step i1 by simp
  have c2: "this_config ?w2 r = this_config w r" using step by simp
  have p3: "pendingLogs (loggers ?w3 r) = batch @ es"
    using p2 i2 by (simp add: fetch_settled_def Let_def nth_append)
  have i3: "inflight ?w3 = inflight w"
    using i2 by (simp add: fetch_settled_def Let_def)
  have c3: "this_config ?w3 r = this_config w r"
    using c2 i2 by (simp add: fetch_settled_def Let_def this_config_def)
  have ne: "batch @ es \<noteq> []" using assms(2) by simp
  have i4: "inflight ?w4 = inflight w @
      [\<lparr>fc_logger = r, fc_url = url, fc_appName = appName (this_config w r),
        fc_logs = batch @ es\<rparr>]"
    and p4: "pendingLogs (loggers ?w4 r) = []"
    using p3 i3 c3 assms(3,4) ne
    by (auto simp add: flushRemoteLogs_def this_config_def Let_def split: option.splits)
  have p5: "pendingLogs (loggers (fetch_settled (length (inflight w)) (Responded 200) ?w4) r) = []"
    using p4 i4 by (simp add: fetch_settled_def Let_def)
  have p6: "pendingLogs (loggers (fetch_settled (length (inflight w)) (Responded status) ?w2) r) = es"
    using p2 i2 by (simp add: fetch_settled_def Let_def)
  show ?thesis using i1 p3 i4 p5 p6 by simp
qed

text \<open>
  The batch \<open>[a, b]\<close> is rejected by the network after \<open>c\<close> was enqueued: the queue is
  \<open>[a, b, c]\<close>, and the next flush posts \<open>[a, b, c]\<close>.
\<close>

lemma failed_flush_requeues_example:
  "pendingLogs (loggers two_pending_world logger) = [entry_a, entry_b]
   \<and> [entry_a, entry_b] \<noteq> []
   \<and> remoteEndpoint (this_config two_pending_world logger) =
       Some ''https://your-logging-server.com/api/logs''
   \<and> ''https://your-logging-server.com/api/logs'' \<noteq> []
   \<and> shouldLogRemote two_pending_world logger (level entry_c)
   \<and> length [entry_c] < 10
   \<and> pendingLogs (loggers
       (fetch_settled 0 NetworkError
          (enqueue_all logger [entry_c] (flushRemoteLogs logger two_pending_world))) logger) =
       [entry_a, entry_b, entry_c]
   \<and> map fc_logs (inflight (flushRemoteLogs logger
       (fetch_settled 0 NetworkError
          (enqueue_all logger [entry_c] (flushRemoteLogs logger two_pending_world))))) =
       [[entry_a, entry_b, entry_c]]"
proof -
  have h1: "pendingLogs (loggers two_pending_world logger) = [entry_a, entry_b]"
    by (simp add: sink_defs object_defs run_defs Let_def)
  have h2: "[entry_a, entry_b] \<noteq> []" by simp
  have h3: "remoteEndpoint (this_config two_pending_world logger) =
       Some ''https://your-logging-server.com/api/logs''"
    by (simp add: two_pending_world_def)
       (simp add: this_config_def object_defs run_defs)
  have h4: "''https://your-logging-server.com/api/logs'' \<noteq> []" by simp
  have h5: "shouldLogRemote two_pending_world logger (level entry_c)"
    by (simp add: two_pending_world_def shouldLogRemote_def)
       (simp add: this_config_def object_defs run_defs)
  have h5': "\<forall>e \<in> set [entry_c]. shouldLogRemote two_pending_world logger (level e)"
    using h5 by simp
  have h6: "length [entry_c] < 10" by simp
  have i0: "inflight two_pending_world = []"
    by (simp add: sink_defs object_defs run_defs Let_def)
  from failed_flush_requeues [OF h1 h2 h3 h4 h5' h6] h1 h3 h5 i0
  show ?thesis by simp
qed

section \<open>Each logger has a queue of its own\<close>



end
